theory Spec2Isabelle
  imports Main
begin

section \<open>Protocol formatter: class KittyUtil of src/lib/kitty.ts\<close>

text \<open>
  Positions, sizes and colour components are JavaScript numbers holding integers (character
  cells, colour bytes); they are modelled as \<open>int\<close>. A template literal prints such a
  number in decimal, with a leading minus sign when it is negative. Every method of
  KittyUtil performs one \<open>writeSync\<close>; the model gives the string written by that call.
\<close>

abbreviation ESC :: char where
  "ESC \<equiv> CHR 0x1B"

fun digits :: "nat \<Rightarrow> string" where
  "digits n =
     (if n < 10 then [''0123456789'' ! n]
      else digits (n div 10) @ [''0123456789'' ! (n mod 10)])"

declare digits.simps [simp del]

definition numberToString :: "int \<Rightarrow> string" where
  "numberToString n = (if n < 0 then CHR ''-'' # digits (nat (- n)) else digits (nat n))"

definition clearScreen :: string where
  "clearScreen = [ESC] @ ''[2J'' @ [ESC] @ ''[H''"

definition moveCursor :: "int \<Rightarrow> int \<Rightarrow> string" where
  "moveCursor row col =
     [ESC] @ ''['' @ numberToString row @ '';'' @ numberToString col @ ''H''"

definition setForegroundColor :: "int \<Rightarrow> int \<Rightarrow> int \<Rightarrow> string" where
  "setForegroundColor r g b =
     [ESC] @ ''[38;2;'' @ numberToString r @ '';'' @ numberToString g @ '';'' @
     numberToString b @ ''m''"

definition setBackgroundColor :: "int \<Rightarrow> int \<Rightarrow> int \<Rightarrow> string" where
  "setBackgroundColor r g b =
     [ESC] @ ''[48;2;'' @ numberToString r @ '';'' @ numberToString g @ '';'' @
     numberToString b @ ''m''"

definition resetColors :: string where
  "resetColors = [ESC] @ ''[0m''"

section \<open>Key decoder: KEY_MAPPING and KeyboardInputHandler._handleInput\<close>

text \<open>
  \<open>KEY_MAPPING\<close> is an object literal whose keys are not array indices, so
  \<open>for (const seq in KEY_MAPPING)\<close> visits them in the order they are written. The
  table is therefore an association list in source order. \<open>_handleInput\<close> hands
  each token to \<open>_handleKey\<close>; the model returns the tokens in the order they are
  handed over.
\<close>

definition KEY_MAPPING :: "(string \<times> string) list" where
  "KEY_MAPPING =
     [([ESC, CHR ''['', CHR ''A''], ''up''),
      ([ESC, CHR ''['', CHR ''B''], ''down''),
      ([ESC, CHR ''['', CHR ''C''], ''right''),
      ([ESC, CHR ''['', CHR ''D''], ''left''),
      ([ESC, CHR ''['', CHR ''H''], ''home''),
      ([ESC, CHR ''['', CHR ''F''], ''end''),
      ([ESC, CHR ''['', CHR ''3'', CHR ''~''], ''delete''),
      ([ESC, CHR ''['', CHR ''5'', CHR ''~''], ''page_up''),
      ([ESC, CHR ''['', CHR ''6'', CHR ''~''], ''page_down''),
      ([ESC], ''escape''),
      ([CHR 0x0D], ''enter''),
      ([CHR 0x0A], ''enter''),
      ([CHR 0x09], ''tab''),
      ([CHR '' ''], ''space''),
      ([CHR 0x7F], ''backspace''),
      ([ESC, CHR ''['', CHR ''Z''], ''shift_tab'')]"

definition startsWith :: "string \<Rightarrow> string \<Rightarrow> bool" where
  "startsWith s seq = (take (length seq) s = seq)"

text \<open>The inner \<open>for\<close> loop: the first entry, in table order, that the input starts with.\<close>

fun firstMatch :: "(string \<times> string) list \<Rightarrow> string \<Rightarrow> (string \<times> string) option" where
  "firstMatch [] s = None"
| "firstMatch ((seq, tok) # rest) s =
     (if startsWith s seq then Some (seq, tok) else firstMatch rest s)"

lemma firstMatch_in_table:
  "firstMatch tbl s = Some (seq, tok) \<Longrightarrow> (seq, tok) \<in> set tbl"
  by (induction tbl) (auto split: if_splits)

lemma KEY_MAPPING_nonempty_keys:
  "(seq, tok) \<in> set KEY_MAPPING \<Longrightarrow> seq \<noteq> []"
  by (auto simp: KEY_MAPPING_def)

function handleInput :: "string \<Rightarrow> string list" where
  "handleInput currentInput =
     (if length currentInput > 0 then
        (case firstMatch KEY_MAPPING currentInput of
           Some (seq, tok) \<Rightarrow> tok # handleInput (drop (length seq) currentInput)
         | None \<Rightarrow> [hd currentInput] # handleInput (drop 1 currentInput))
      else [])"
  by pat_completeness auto
termination
proof (relation "measure length")
  show "wf (measure length)" by simp
next
  fix currentInput :: string and x2 seq tok
  assume "0 < length currentInput"
    and "firstMatch KEY_MAPPING currentInput = Some x2"
    and "(seq, tok) = x2"
  then have "seq \<noteq> []"
    using firstMatch_in_table KEY_MAPPING_nonempty_keys by metis
  with \<open>0 < length currentInput\<close>
  show "(drop (length seq) currentInput, currentInput) \<in> measure length"
    by simp
next
  fix currentInput :: string
  assume "0 < length currentInput"
  then show "(drop 1 currentInput, currentInput) \<in> measure length"
    by simp
qed

declare handleInput.simps [simp del]

section \<open>Scene graph: class Node of src/lib/node.ts and its subclasses\<close>

text \<open>
  Nodes are objects that refer to each other through \<open>parent\<close> and \<open>children\<close>, so
  the model keeps them in a store indexed by reference. One record holds the fields of
  Node and of the subclasses that the tree, focus and drawing code reads: Rectangle
  (\<open>size\<close>, \<open>color\<close>, \<open>fill\<close>), Text (\<open>text\<close>, \<open>color\<close>), the FocusableComponent
  members (\<open>isFocused\<close>, the optional \<open>tabIndex\<close> read by the sort) and Scene
  (\<open>focusedComponent\<close>, \<open>focusableComponents\<close>, \<open>keyboardHandlers\<close>). The class
  of an object is its \<open>kind\<close>; the fields \<open>size\<close> and \<open>text\<close> are named
  \<open>nsize\<close> and \<open>textStr\<close>. Button, TextInput and TabContainer extend Group and
  inherit its empty \<open>render\<close>. Image nodes draw through an asynchronous image decoder
  and are not part of this development.

  The bodies of \<open>onFocus\<close> and \<open>onBlur\<close> belong to the components: both Button and
  TextInput set \<open>isFocused\<close>, recolour their background and ask for a redraw, and
  TextInput shows or hides its cursor. The model keeps the flag and records the call in
  \<open>calls\<close>. What is left out writes colours, the visible flag of the cursor, the
  cached absolute positions and the terminal; it does not touch the parent and children
  links, the registry or the focused component. Handlers registered by the application
  are likewise recorded as calls.
\<close>

type_synonym ref = nat

datatype kind = Rectangle | Text | Group | Button | TextInput | TabContainer | Scene

record node =
  kind :: kind
  position :: "int \<times> int"
  absolutePosition :: "int \<times> int"
  parent :: "ref option"
  children :: "ref list"
  visible :: bool
  nsize :: "int \<times> int"
  color :: "int \<times> int \<times> int"
  fill :: bool
  textStr :: string
  isFocused :: bool
  tabIndex :: "int option"
  focusedComponent :: "ref option"
  focusableComponents :: "ref list"
  keyboardHandlers :: "string list"

datatype event = OnFocus ref | OnBlur ref | Handler string

record state =
  heap :: "ref \<Rightarrow> node"
  calls :: "event list"

text \<open>The constructor of Node: the absolute position starts as the position, there is no
  parent, no child, and the node is visible. Fields of other classes get a default.\<close>

definition new_Node :: "kind \<Rightarrow> int \<times> int \<Rightarrow> node" where
  "new_Node k pos =
     \<lparr>kind = k, position = pos, absolutePosition = pos, parent = None, children = [],
      visible = True, nsize = (0, 0), color = (255, 255, 255), fill = True, textStr = [],
      isFocused = False, tabIndex = None, focusedComponent = None,
      focusableComponents = [], keyboardHandlers = []\<rparr>"

definition upd :: "ref \<Rightarrow> (node \<Rightarrow> node) \<Rightarrow> state \<Rightarrow> state" where
  "upd r f s = s\<lparr>heap := (heap s)(r := f (heap s r))\<rparr>"

subsection \<open>Node.removeChild\<close>

text \<open>\<open>indexOf\<close> followed by \<open>splice(index, 1)\<close> removes the first occurrence.\<close>

definition Node_removeChild :: "ref \<Rightarrow> ref \<Rightarrow> state \<Rightarrow> bool \<times> state" where
  "Node_removeChild this child s =
     (if child \<in> set (children (heap s this))
      then (True,
            upd child (\<lambda>n. n\<lparr>parent := None\<rparr>)
              (upd this (\<lambda>n. n\<lparr>children := remove1 child (children n)\<rparr>) s))
      else (False, s))"

subsection \<open>Scene.setFocus and the focus callbacks\<close>

text \<open>\<open>typeof c.onFocus === 'function'\<close> holds for the classes that implement
  FocusableComponent: Button and TextInput.\<close>

definition hasFocusCallbacks :: "node \<Rightarrow> bool" where
  "hasFocusCallbacks n = (kind n = Button \<or> kind n = TextInput)"

definition onFocus :: "ref \<Rightarrow> state \<Rightarrow> state" where
  "onFocus c s = (upd c (\<lambda>n. n\<lparr>isFocused := True\<rparr>) s)\<lparr>calls := calls s @ [OnFocus c]\<rparr>"

definition onBlur :: "ref \<Rightarrow> state \<Rightarrow> state" where
  "onBlur c s = (upd c (\<lambda>n. n\<lparr>isFocused := False\<rparr>) s)\<lparr>calls := calls s @ [OnBlur c]\<rparr>"

definition setFocus :: "ref \<Rightarrow> ref option \<Rightarrow> state \<Rightarrow> state" where
  "setFocus this component s =
     (let s1 = (case focusedComponent (heap s this) of
                  Some f \<Rightarrow> if hasFocusCallbacks (heap s f) then onBlur f s else s
                | None \<Rightarrow> s);
          s2 = upd this (\<lambda>n. n\<lparr>focusedComponent := component\<rparr>) s1
      in case component of
           Some c \<Rightarrow> if hasFocusCallbacks (heap s2 c) then onFocus c s2 else s2
         | None \<Rightarrow> s2)"

subsection \<open>Scene.sortFocusableComponents\<close>

text \<open>
  The comparator maps a missing \<open>tabIndex\<close> to \<open>Infinity\<close> and returns the difference,
  which is \<open>NaN\<close> for two missing indices; \<open>Array.prototype.sort\<close> treats \<open>NaN\<close> as
  zero and is stable. The comparator is a consistent ordering, so the result is the one
  of any stable sort; the model inserts from the right, placing an element after the
  entries it compares greater than.
\<close>

datatype jsnum = Fin int | PosInf | NegInf | NaN

fun jsMinus :: "jsnum \<Rightarrow> jsnum \<Rightarrow> jsnum" where
  "jsMinus (Fin a) (Fin b) = Fin (a - b)"
| "jsMinus (Fin a) PosInf = NegInf"
| "jsMinus (Fin a) NegInf = PosInf"
| "jsMinus PosInf (Fin b) = PosInf"
| "jsMinus PosInf PosInf = NaN"
| "jsMinus PosInf NegInf = PosInf"
| "jsMinus NegInf (Fin b) = NegInf"
| "jsMinus NegInf PosInf = NegInf"
| "jsMinus NegInf NegInf = NaN"
| "jsMinus NaN b = NaN"
| "jsMinus a NaN = NaN"

fun jsPositive :: "jsnum \<Rightarrow> bool" where
  "jsPositive (Fin v) = (0 < v)"
| "jsPositive PosInf = True"
| "jsPositive NegInf = False"
| "jsPositive NaN = False"

definition sortIndex :: "node \<Rightarrow> jsnum" where
  "sortIndex n = (case tabIndex n of None \<Rightarrow> PosInf | Some i \<Rightarrow> Fin i)"

definition compareFn :: "(ref \<Rightarrow> node) \<Rightarrow> ref \<Rightarrow> ref \<Rightarrow> jsnum" where
  "compareFn h a b = jsMinus (sortIndex (h a)) (sortIndex (h b))"

fun insertSorted :: "(ref \<Rightarrow> node) \<Rightarrow> ref \<Rightarrow> ref list \<Rightarrow> ref list" where
  "insertSorted h a [] = [a]"
| "insertSorted h a (b # bs) =
     (if jsPositive (compareFn h a b) then b # insertSorted h a bs else a # b # bs)"

definition sortBy :: "(ref \<Rightarrow> node) \<Rightarrow> ref list \<Rightarrow> ref list" where
  "sortBy h xs = foldr (insertSorted h) xs []"

definition sortFocusableComponents :: "ref \<Rightarrow> state \<Rightarrow> state" where
  "sortFocusableComponents this s =
     upd this (\<lambda>n. n\<lparr>focusableComponents := sortBy (heap s) (focusableComponents n)\<rparr>) s"

subsection \<open>Scene.removeChild, and the dispatch of removeChild on the class\<close>

definition firstOrNull :: "ref list \<Rightarrow> ref option" where
  "firstOrNull xs = (case xs of [] \<Rightarrow> None | c # _ \<Rightarrow> Some c)"

definition Scene_removeChild :: "ref \<Rightarrow> ref \<Rightarrow> state \<Rightarrow> bool \<times> state" where
  "Scene_removeChild this child s =
     (let wasFocused = (focusedComponent (heap s this) = Some child);
          (removed, s1) = Node_removeChild this child s
      in if removed then
           (let s2 = (if child \<in> set (focusableComponents (heap s1 this))
                      then sortFocusableComponents this
                             (upd this (\<lambda>n. n\<lparr>focusableComponents :=
                                               remove1 child (focusableComponents n)\<rparr>) s1)
                      else s1);
                s3 = (if wasFocused
                      then setFocus this (firstOrNull (focusableComponents (heap s2 this))) s2
                      else s2)
            in (removed, s3))
         else (removed, s1))"

definition removeChild :: "ref \<Rightarrow> ref \<Rightarrow> state \<Rightarrow> bool \<times> state" where
  "removeChild this child s =
     (if kind (heap s this) = Scene then Scene_removeChild this child s
      else Node_removeChild this child s)"

subsection \<open>Node.addChild, Scene.addChild, and the dispatch of addChild\<close>

text \<open>\<open>child.parent.removeChild(child)\<close> is a virtual call: a Scene parent runs its
  override.\<close>

definition Node_addChild :: "ref \<Rightarrow> ref \<Rightarrow> state \<Rightarrow> state" where
  "Node_addChild this child s =
     (let s1 = (case parent (heap s child) of
                  Some p \<Rightarrow> snd (removeChild p child s)
                | None \<Rightarrow> s);
          s2 = upd child (\<lambda>n. n\<lparr>parent := Some this\<rparr>) s1
      in upd this (\<lambda>n. n\<lparr>children := children n @ [child]\<rparr>) s2)"

text \<open>\<open>'isFocused' in child && typeof child.onFocus === 'function'\<close>: the classes
  Button and TextInput.\<close>

definition isFocusable :: "node \<Rightarrow> bool" where
  "isFocusable n = (kind n = Button \<or> kind n = TextInput)"

definition Scene_addChild :: "ref \<Rightarrow> ref \<Rightarrow> state \<Rightarrow> state" where
  "Scene_addChild this child s =
     (let s1 = Node_addChild this child s
      in if isFocusable (heap s1 child) then
           (let s2 = sortFocusableComponents this
                       (upd this (\<lambda>n. n\<lparr>focusableComponents :=
                                         focusableComponents n @ [child]\<rparr>) s1)
            in if focusedComponent (heap s2 this) = None
               then setFocus this (firstOrNull (focusableComponents (heap s2 this))) s2
               else s2)
         else s1)"

definition addChild :: "ref \<Rightarrow> ref \<Rightarrow> state \<Rightarrow> state" where
  "addChild this child s =
     (if kind (heap s this) = Scene then Scene_addChild this child s
      else Node_addChild this child s)"

section \<open>Transform pass: Node.updateTransform\<close>

text \<open>
  The recursion follows \<open>children\<close> through the store and need not end when the links
  form a cycle. The first argument bounds the depth of nested calls; \<open>None\<close> means the
  bound was reached. The parameter \<open>force\<close> of the source is passed on and never read.
\<close>

definition vadd :: "int \<times> int \<Rightarrow> int \<times> int \<Rightarrow> int \<times> int" where
  "vadd a b = (fst a + fst b, snd a + snd b)"

fun updateTransform :: "nat \<Rightarrow> ref \<Rightarrow> (ref \<Rightarrow> node) \<Rightarrow> (ref \<Rightarrow> node) option"
  and updateChildren :: "nat \<Rightarrow> ref list \<Rightarrow> (ref \<Rightarrow> node) \<Rightarrow> (ref \<Rightarrow> node) option"
where
  "updateTransform 0 this h = None"
| "updateTransform (Suc fuel) this h =
     (let h1 = h(this := (h this)\<lparr>absolutePosition :=
                 (case parent (h this) of
                    Some p \<Rightarrow> vadd (absolutePosition (h p)) (position (h this))
                  | None \<Rightarrow> position (h this))\<rparr>)
      in updateChildren fuel (children (h1 this)) h1)"
| "updateChildren fuel [] h = Some h"
| "updateChildren fuel (child # rest) h =
     (case updateTransform fuel child h of
        None \<Rightarrow> None
      | Some h' \<Rightarrow> updateChildren fuel rest h')"

section \<open>Drawing: the render methods of src/lib/components.ts\<close>

text \<open>
  A draw routine performs a sequence of writes and may stop with the \<open>RangeError\<close> that
  \<open>String.prototype.repeat\<close> throws for a negative count; what was written before
  stays written. A routine therefore yields the writes it made and the error it stopped
  with, if any.
\<close>

datatype err = RangeError

definition repeatStr :: "string \<Rightarrow> int \<Rightarrow> err + string" where
  "repeatStr str count =
     (if count < 0 then Inl RangeError else Inr (concat (replicate (nat count) str)))"

text \<open>Statements in sequence: the writes of each, up to the first that throws.\<close>

fun seqWrites :: "(string list \<times> err option) list \<Rightarrow> string list \<times> err option" where
  "seqWrites [] = ([], None)"
| "seqWrites ((out, Some e) # rest) = (out, Some e)"
| "seqWrites ((out, None) # rest) = (let (outs, e) = seqWrites rest in (out @ outs, e))"

definition render_Rectangle :: "node \<Rightarrow> string list \<times> err option" where
  "render_Rectangle n =
     (let (x, y) = absolutePosition n; (width, height) = nsize n; (r, g, b) = color n
      in if fill n then
           seqWrites
             (([moveCursor (y + 1) (x + 1)], None) #
              map (\<lambda>row.
                     case repeatStr '' '' (width * 2) of
                       Inl e \<Rightarrow>
                         ([moveCursor (y + row + 1) (x + 1), setBackgroundColor r g b], Some e)
                     | Inr spaces \<Rightarrow>
                         ([moveCursor (y + row + 1) (x + 1), setBackgroundColor r g b,
                           spaces, resetColors], None))
                [0 .. height - 1])
         else
           seqWrites
             (([moveCursor (y + 1) (x + 1)], None) #
              ([setForegroundColor r g b], None) #
              (case repeatStr ''-'' (width * 2 - 2) of
                 Inl e \<Rightarrow> ([moveCursor (y + 1) (x + 1)], Some e)
               | Inr dashes \<Rightarrow> ([moveCursor (y + 1) (x + 1), ''+'' @ dashes @ ''+''], None)) #
              map (\<lambda>row.
                     case repeatStr '' '' (width * 2 - 2) of
                       Inl e \<Rightarrow> ([moveCursor (y + row + 1) (x + 1)], Some e)
                     | Inr spaces \<Rightarrow>
                         ([moveCursor (y + row + 1) (x + 1), ''|'' @ spaces @ ''|''], None))
                [1 .. height - 2] @
              [case repeatStr ''-'' (width * 2 - 2) of
                 Inl e \<Rightarrow> ([moveCursor (y + height) (x + 1)], Some e)
               | Inr dashes \<Rightarrow>
                   ([moveCursor (y + height) (x + 1), ''+'' @ dashes @ ''+''], None),
               ([resetColors], None)]))"

definition render_Text :: "node \<Rightarrow> string list \<times> err option" where
  "render_Text n =
     (let (x, y) = absolutePosition n; (r, g, b) = color n
      in ([moveCursor (y + 1) (x + 1), setForegroundColor r g b, textStr n, resetColors],
          None))"

text \<open>Virtual call of \<open>render\<close>: Group, and with it Scene, Button, TextInput and
  TabContainer, draw nothing themselves.\<close>

definition render :: "node \<Rightarrow> string list \<times> err option" where
  "render n =
     (case kind n of
        Rectangle \<Rightarrow> render_Rectangle n
      | Text \<Rightarrow> render_Text n
      | _ \<Rightarrow> ([], None))"

section \<open>Renderer: renderScene and _renderNode of the renderer module\<close>

fun renderNode :: "nat \<Rightarrow> ref \<Rightarrow> (ref \<Rightarrow> node) \<Rightarrow> (string list \<times> err option) option"
  and renderChildren :: "nat \<Rightarrow> ref list \<Rightarrow> (ref \<Rightarrow> node) \<Rightarrow> (string list \<times> err option) option"
where
  "renderNode 0 n h = None"
| "renderNode (Suc fuel) n h =
     (case render (h n) of
        (out, Some e) \<Rightarrow> Some (out, Some e)
      | (out, None) \<Rightarrow>
          (case renderChildren fuel (children (h n)) h of
             None \<Rightarrow> None
           | Some (outs, e) \<Rightarrow> Some (out @ outs, e)))"
| "renderChildren fuel [] h = Some ([], None)"
| "renderChildren fuel (child # rest) h =
     (case renderNode fuel child h of
        None \<Rightarrow> None
      | Some (out, Some e) \<Rightarrow> Some (out, Some e)
      | Some (out, None) \<Rightarrow>
          (case renderChildren fuel rest h of
             None \<Rightarrow> None
           | Some (outs, e) \<Rightarrow> Some (out @ outs, e)))"

text \<open>\<open>renderScene\<close>: clear the screen, update the transforms from the root, draw the
  graph; \<open>flush\<close> writes nothing. The result is the store after the transform pass,
  the writes in order, and the error the frame stopped with, if any.\<close>

definition renderScene ::
  "nat \<Rightarrow> ref \<Rightarrow> (ref \<Rightarrow> node) \<Rightarrow> ((ref \<Rightarrow> node) \<times> string list \<times> err option) option" where
  "renderScene fuel rootNode h =
     (case updateTransform fuel rootNode h of
        None \<Rightarrow> None
      | Some h1 \<Rightarrow>
          (case renderNode fuel rootNode h1 of
             None \<Rightarrow> None
           | Some (out, e) \<Rightarrow> Some (h1, clearScreen # out, e)))"

section \<open>Key dispatch: Scene.handleKey\<close>

text \<open>
  \<open>getTabbableChildren\<close> is defined once, in Node, and returns an empty array; neither
  Group nor Scene overrides it. The key handler of the focused component is reached
  through the FocusableComponent interface and is a parameter of the model; it reports
  whether it handled the key.
\<close>

definition getTabbableChildren :: "ref \<Rightarrow> state \<Rightarrow> ref list" where
  "getTabbableChildren this s = []"

text \<open>\<open>typeof c.handleKey === 'function'\<close>.\<close>

definition hasHandleKey :: "node \<Rightarrow> bool" where
  "hasHandleKey n =
     (kind n = Button \<or> kind n = TextInput \<or> kind n = TabContainer \<or> kind n = Scene)"

fun indexOf :: "ref list \<Rightarrow> ref \<Rightarrow> int" where
  "indexOf [] x = - 1"
| "indexOf (y # ys) x =
     (if y = x then 0 else (let i = indexOf ys x in if i < 0 then - 1 else i + 1))"

text \<open>The remainder operator of JavaScript takes the sign of the dividend.\<close>

definition jsRem :: "int \<Rightarrow> int \<Rightarrow> int" where
  "jsRem a b = sgn a * (\<bar>a\<bar> mod \<bar>b\<bar>)"

definition tabStage :: "ref \<Rightarrow> string \<Rightarrow> state \<Rightarrow> state option" where
  "tabStage this key s =
     (let tabbable = getTabbableChildren this s
      in if length tabbable > 0 then
           (let currentIndex = (case focusedComponent (heap s this) of
                                  Some f \<Rightarrow> indexOf tabbable f
                                | None \<Rightarrow> - 1);
                nextIndex = (if key = ''tab''
                             then jsRem (currentIndex + 1) (int (length tabbable))
                             else jsRem (currentIndex - 1 + int (length tabbable))
                                    (int (length tabbable)))
            in Some (setFocus this (Some (tabbable ! nat nextIndex)) s))
         else None)"

text \<open>The score of a candidate for an arrow key, when it lies strictly in the direction
  of the key. Positions are \<open>[x, y]\<close>.\<close>

definition arrowDistance :: "string \<Rightarrow> int \<times> int \<Rightarrow> int \<times> int \<Rightarrow> int option" where
  "arrowDistance key currentPos componentPos =
     (if key = ''up'' \<and> snd componentPos < snd currentPos then
        Some (snd currentPos - snd componentPos + \<bar>fst currentPos - fst componentPos\<bar>)
      else if key = ''down'' \<and> snd componentPos > snd currentPos then
        Some (snd componentPos - snd currentPos + \<bar>fst currentPos - fst componentPos\<bar>)
      else if key = ''left'' \<and> fst componentPos < fst currentPos then
        Some (fst currentPos - fst componentPos + \<bar>snd currentPos - snd componentPos\<bar>)
      else if key = ''right'' \<and> fst componentPos > fst currentPos then
        Some (fst componentPos - fst currentPos + \<bar>snd currentPos - snd componentPos\<bar>)
      else None)"

text \<open>The scan for the nearest component; a minimal distance of \<open>None\<close> is
  \<open>Infinity\<close>.\<close>

fun nearestScan ::
  "string \<Rightarrow> (ref \<Rightarrow> node) \<Rightarrow> ref \<Rightarrow> ref list \<Rightarrow> ref option \<times> int option \<Rightarrow> ref option \<times> int option"
where
  "nearestScan key h f [] acc = acc"
| "nearestScan key h f (component # rest) (nearestComponent, minDistance) =
     (if component \<noteq> f then
        (case arrowDistance key (absolutePosition (h f)) (absolutePosition (h component)) of
           Some distance \<Rightarrow>
             (if (case minDistance of None \<Rightarrow> True | Some m \<Rightarrow> distance < m)
              then nearestScan key h f rest (Some component, Some distance)
              else nearestScan key h f rest (nearestComponent, minDistance))
         | None \<Rightarrow> nearestScan key h f rest (nearestComponent, minDistance))
      else nearestScan key h f rest (nearestComponent, minDistance))"

definition arrowStage :: "ref \<Rightarrow> string \<Rightarrow> state \<Rightarrow> state option" where
  "arrowStage this key s =
     (let tabbable = getTabbableChildren this s
      in case focusedComponent (heap s this) of
           Some f \<Rightarrow>
             (case fst (nearestScan key (heap s) f tabbable (None, None)) of
                Some nearestComponent \<Rightarrow> Some (setFocus this (Some nearestComponent) s)
              | None \<Rightarrow> None)
         | None \<Rightarrow> None)"

definition Scene_handleKey ::
  "(ref \<Rightarrow> string \<Rightarrow> state \<Rightarrow> bool \<times> state) \<Rightarrow> ref \<Rightarrow> string \<Rightarrow> state \<Rightarrow> bool \<times> state" where
  "Scene_handleKey componentHandleKey this key s =
     (let (handled, s1) =
            (case focusedComponent (heap s this) of
               Some f \<Rightarrow>
                 if hasHandleKey (heap s f) then componentHandleKey f key s else (False, s)
             | None \<Rightarrow> (False, s))
      in if handled then (True, s1)
         else
           (case (if key = ''tab'' \<or> key = ''shift_tab'' then tabStage this key s1
                  else if key = ''up'' \<or> key = ''down'' \<or> key = ''left'' \<or> key = ''right''
                  then arrowStage this key s1
                  else None) of
              Some s2 \<Rightarrow> (True, s2)
            | None \<Rightarrow>
                if key \<in> set (keyboardHandlers (heap s1 this))
                then (True, s1\<lparr>calls := calls s1 @ [Handler key]\<rparr>)
                else (False, s1)))"

section \<open>Constructors\<close>

text \<open>
  \<open>new\<close> places a fresh object at a reference that the caller supplies. The
  constructors of Button, TextInput and Scene create their inner nodes and attach them
  with \<open>addChild\<close>, as the source does. The focus colour and the click and change
  callbacks of the components are not stored.
\<close>

definition emptyState :: state where
  "emptyState = \<lparr>heap = (\<lambda>r. new_Node Group (0, 0)), calls = []\<rparr>"

definition new_Rectangle ::
  "ref \<Rightarrow> int \<times> int \<Rightarrow> int \<times> int \<times> int \<Rightarrow> bool \<Rightarrow> int \<times> int \<Rightarrow> state \<Rightarrow> state" where
  "new_Rectangle r sz col fl pos s =
     upd r (\<lambda>_. (new_Node Rectangle pos)\<lparr>nsize := sz, color := col, fill := fl\<rparr>) s"

definition new_Text :: "ref \<Rightarrow> string \<Rightarrow> int \<times> int \<times> int \<Rightarrow> int \<times> int \<Rightarrow> state \<Rightarrow> state" where
  "new_Text r txt col pos s =
     upd r (\<lambda>_. (new_Node Text pos)\<lparr>textStr := txt, color := col\<rparr>) s"

definition new_Group :: "ref \<Rightarrow> int \<times> int \<Rightarrow> state \<Rightarrow> state" where
  "new_Group r pos s = upd r (\<lambda>_. new_Node Group pos) s"

definition new_Button ::
  "ref \<Rightarrow> ref \<Rightarrow> ref \<Rightarrow> string \<Rightarrow> int \<times> int \<Rightarrow> (int \<times> int) option \<Rightarrow> int \<times> int \<times> int \<Rightarrow>
   int \<times> int \<times> int \<Rightarrow> state \<Rightarrow> state" where
  "new_Button r rBackground rText txt pos sizeOpt col textColor s =
     (let sz = (case sizeOpt of None \<Rightarrow> (int (length txt) + 4, 3) | Some z \<Rightarrow> z);
          s1 = upd r (\<lambda>_. (new_Node Button pos)\<lparr>nsize := sz, color := col,
                                                isFocused := False\<rparr>) s;
          s2 = addChild r rBackground (new_Rectangle rBackground sz col True (0, 0) s1);
          textX = max 1 ((fst sz - int (length txt)) div 2);
          textY = snd sz div 2
      in addChild r rText (new_Text rText txt textColor (textX, textY) s2))"

definition new_TextInput ::
  "ref \<Rightarrow> ref \<Rightarrow> ref \<Rightarrow> ref \<Rightarrow> int \<times> int \<Rightarrow> int \<times> int \<Rightarrow> int \<times> int \<times> int \<Rightarrow>
   int \<times> int \<times> int \<Rightarrow> string \<Rightarrow> string \<Rightarrow> state \<Rightarrow> state" where
  "new_TextInput r rBackground rText rCursor pos sz col textColor placeholder val s =
     (let s1 = upd r (\<lambda>_. (new_Node TextInput pos)\<lparr>nsize := sz, color := col,
                                                   isFocused := False\<rparr>) s;
          s2 = addChild r rBackground (new_Rectangle rBackground sz col True (0, 0) s1);
          textY = snd sz div 2;
          s3 = addChild r rText
                 (new_Text rText (if val \<noteq> [] then val else placeholder)
                    (if val \<noteq> [] then textColor else (150, 150, 150)) (1, textY) s2);
          s4 = new_Text rCursor ''|'' textColor (1 + int (length val), textY) s3;
          s5 = upd rCursor (\<lambda>n. n\<lparr>visible := False\<rparr>) s4
      in addChild r rCursor s5)"

definition new_Scene ::
  "ref \<Rightarrow> ref \<Rightarrow> int \<times> int \<Rightarrow> int \<times> int \<Rightarrow> int \<times> int \<times> int \<Rightarrow> state \<Rightarrow> state" where
  "new_Scene r rBackground sz pos backgroundColor s =
     (let s1 = upd r (\<lambda>_. (new_Node Scene pos)\<lparr>nsize := sz, color := backgroundColor,
                                               focusedComponent := None,
                                               keyboardHandlers := [],
                                               focusableComponents := []\<rparr>) s
      in addChild r rBackground (new_Rectangle rBackground sz backgroundColor True (0, 0) s1))"

section \<open>Scenes used as concrete inputs\<close>

text \<open>
  A scene (reference 0, background 1) and three buttons that are not yet attached: A at 2
  with no tab index, B at 5 with tab index 1, C at 8 with tab index 0. Each button owns
  its background and its label (the two references after its own).
\<close>

definition buttonsABC :: state where
  "buttonsABC =
     (let s0 = new_Scene 0 1 (80, 24) (0, 0) (0, 0, 0) emptyState;
          s1 = new_Button 2 3 4 ''A'' (0, 0) None (100, 100, 200) (255, 255, 255) s0;
          s2 = upd 5 (\<lambda>n. n\<lparr>tabIndex := Some 1\<rparr>)
                 (new_Button 5 6 7 ''B'' (0, 5) None (100, 100, 200) (255, 255, 255) s1)
      in upd 8 (\<lambda>n. n\<lparr>tabIndex := Some 0\<rparr>)
           (new_Button 8 9 10 ''C'' (0, 10) None (100, 100, 200) (255, 255, 255) s2))"

text \<open>The three buttons added to the scene in the order A, B, C.\<close>

definition sceneABC :: state where
  "sceneABC = addChild 0 8 (addChild 0 5 (addChild 0 2 buttonsABC))"

text \<open>A and B added to the scene, and the focus then cleared.\<close>

definition sceneAB_unfocused :: state where
  "sceneAB_unfocused = setFocus 0 None (addChild 0 5 (addChild 0 2 buttonsABC))"

text \<open>A scene (0, background 1) holding a group (2) that holds one button (3, with its
  background 4 and label 5).\<close>

definition nestedButtonScene :: state where
  "nestedButtonScene =
     (let s0 = new_Scene 0 1 (80, 24) (0, 0) (0, 0, 0) emptyState;
          s1 = new_Group 2 (0, 0) s0;
          s2 = new_Button 3 4 5 ''OK'' (1, 1) None (100, 100, 200) (255, 255, 255) s1
      in addChild 0 2 (addChild 2 3 s2))"

text \<open>A scene (0, background 1) of two cells by one row, holding a group (2) at (1, 1)
  that holds a text input (3) with its background (4), its text (5) and its cursor (6).
  The constructor of TextInput makes the cursor invisible; the input is never focused.\<close>

definition hiddenCursorScene :: state where
  "hiddenCursorScene =
     (let s0 = new_Scene 0 1 (2, 1) (0, 0) (0, 0, 0) emptyState;
          s1 = new_Group 2 (1, 1) s0;
          s2 = new_TextInput 3 4 5 6 (2, 0) (3, 1) (50, 50, 70) (255, 255, 255) ''hi'' [] s1
      in addChild 0 2 (addChild 2 3 s2))"

section \<open>Vocabulary of the properties\<close>

subsection \<open>Sequences of operations\<close>

text \<open>The calls an application makes on the tree and on the focus of a scene.\<close>

datatype op = AddChild ref ref | RemoveChild ref ref | SetFocus ref "ref option"

fun step :: "op \<Rightarrow> state \<Rightarrow> state" where
  "step (AddChild p c) s = addChild p c s"
| "step (RemoveChild p c) s = snd (removeChild p c s)"
| "step (SetFocus t c) s = setFocus t c s"

fun run :: "op list \<Rightarrow> state \<Rightarrow> state" where
  "run [] s = s"
| "run (op # ops) s = run ops (step op s)"

subsection \<open>Parent and children agree\<close>


subsection \<open>Focus and registry\<close>


text \<open>An operation that neither detaches component \<open>c\<close> (by \<open>removeChild\<close>, or by
  \<open>addChild\<close>, which detaches before it attaches) nor calls \<open>setFocus(null)\<close> on
  scene \<open>t\<close>.\<close>

fun leavesInPlace :: "ref \<Rightarrow> ref \<Rightarrow> op \<Rightarrow> bool" where
  "leavesInPlace t c (AddChild p d) = (d \<noteq> c)"
| "leavesInPlace t c (RemoveChild p d) = (d \<noteq> c)"
| "leavesInPlace t c (SetFocus t' x) = (\<not> (t' = t \<and> x = None))"

text \<open>Component \<open>c\<close> is registered with scene \<open>t\<close> and the scene has a focused
  component.\<close>

definition anchored :: "ref \<Rightarrow> ref \<Rightarrow> state \<Rightarrow> bool" where
  "anchored t c s \<longleftrightarrow>
     c \<in> set (focusableComponents (heap s t)) \<and> focusedComponent (heap s t) \<noteq> None"

subsection \<open>Trees in the store\<close>

text \<open>
  A tree of references, and what it means for the store to have that shape below a node
  whose parent reference is \<open>par\<close>: each node has the parent the tree gives it and
  its children list is the list of the roots of its subtrees. \<open>pathsOf\<close> lists, for
  every node of the tree, the path from the root to that node, both included.
\<close>

datatype rtree = RNode ref "rtree list"


fun nodesOf :: "rtree \<Rightarrow> ref list" where
  "nodesOf (RNode r ts) = r # concat (map nodesOf ts)"

fun height :: "rtree \<Rightarrow> nat" where
  "height (RNode r ts) = Suc (foldr max (map height ts) 0)"


fun pathsOf :: "rtree \<Rightarrow> ref list list" where
  "pathsOf (RNode r ts) = [r] # map ((#) r) (concat (map pathsOf ts))"





section \<open>Effect of the operations on each field\<close>

lemma heap_upd [simp]: "heap (upd r f s) = (heap s)(r := f (heap s r))"
  by (simp add: upd_def)

lemma calls_upd [simp]: "calls (upd r f s) = calls s"
  by (simp add: upd_def)

lemma set_insertSorted [simp]: "set (insertSorted h a bs) = insert a (set bs)"
  by (induction bs) auto

lemma set_sortBy [simp]: "set (sortBy h xs) = set xs"
  by (induction xs) (auto simp: sortBy_def)

lemma sortBy_Nil_iff [simp]: "sortBy h xs = [] \<longleftrightarrow> xs = []"
  by (metis set_sortBy set_empty)

lemma insertSorted_cong:
  "(\<And>x. tabIndex (h x) = tabIndex (h' x)) \<Longrightarrow> insertSorted h a bs = insertSorted h' a bs"
  by (induction bs) (simp_all add: compareFn_def sortIndex_def)

lemma sortBy_cong:
  assumes "\<And>x. tabIndex (h x) = tabIndex (h' x)"
  shows "sortBy h xs = sortBy h' xs"
  by (induction xs) (simp_all add: sortBy_def insertSorted_cong [OF assms])

lemma firstOrNull_simps [simp]:
  "firstOrNull [] = None" "firstOrNull (x # xs) = Some x"
  by (simp_all add: firstOrNull_def)

lemma firstOrNull_None_iff: "firstOrNull xs = None \<longleftrightarrow> xs = []"
  by (cases xs) simp_all


lemma mem_remove1_other: "y \<noteq> c \<Longrightarrow> y \<in> set (remove1 c xs) \<longleftrightarrow> y \<in> set xs"
  by (induction xs) auto


lemma setFocus_fields [simp]:
  "kind (heap (setFocus t c s) x) = kind (heap s x)"
  "parent (heap (setFocus t c s) x) = parent (heap s x)"
  "children (heap (setFocus t c s) x) = children (heap s x)"
  "tabIndex (heap (setFocus t c s) x) = tabIndex (heap s x)"
  "focusableComponents (heap (setFocus t c s) x) = focusableComponents (heap s x)"
  "focusedComponent (heap (setFocus t c s) x) = (if x = t then c else focusedComponent (heap s x))"
  by (auto simp: setFocus_def onFocus_def onBlur_def Let_def split: option.splits)

lemma setFocus_from_None:
  assumes "focusedComponent (heap s t) = None" and "hasFocusCallbacks (heap s f)"
  shows "setFocus t (Some f) s = onFocus f (upd t (\<lambda>n. n\<lparr>focusedComponent := Some f\<rparr>) s)"
  using assms by (auto simp: setFocus_def hasFocusCallbacks_def Let_def)

lemma onFocus_effect:
  "isFocused (heap (onFocus f s) f)" "calls (onFocus f s) = calls s @ [OnFocus f]"
  by (simp_all add: onFocus_def)

lemma sortFocusableComponents_fields [simp]:
  "kind (heap (sortFocusableComponents t s) x) = kind (heap s x)"
  "parent (heap (sortFocusableComponents t s) x) = parent (heap s x)"
  "children (heap (sortFocusableComponents t s) x) = children (heap s x)"
  "tabIndex (heap (sortFocusableComponents t s) x) = tabIndex (heap s x)"
  "focusedComponent (heap (sortFocusableComponents t s) x) = focusedComponent (heap s x)"
  "focusableComponents (heap (sortFocusableComponents t s) x) =
     (if x = t then sortBy (heap s) (focusableComponents (heap s t)) else focusableComponents (heap s x))"
  "calls (sortFocusableComponents t s) = calls s"
  by (auto simp: sortFocusableComponents_def)

lemma Node_removeChild_fst [simp]:
  "fst (Node_removeChild p c s) = (c \<in> set (children (heap s p)))"
  by (simp add: Node_removeChild_def)

lemma Node_removeChild_fields [simp]:
  "kind (heap (snd (Node_removeChild p c s)) x) = kind (heap s x)"
  "tabIndex (heap (snd (Node_removeChild p c s)) x) = tabIndex (heap s x)"
  "focusedComponent (heap (snd (Node_removeChild p c s)) x) = focusedComponent (heap s x)"
  "focusableComponents (heap (snd (Node_removeChild p c s)) x) = focusableComponents (heap s x)"
  "calls (snd (Node_removeChild p c s)) = calls s"
  by (simp_all add: Node_removeChild_def)


lemma Node_removeChild_parent:
  "parent (heap (snd (Node_removeChild p c s)) x) =
     (if x = c \<and> c \<in> set (children (heap s p)) then None else parent (heap s x))"
  by (simp add: Node_removeChild_def)

lemma Scene_removeChild_alt:
  "Scene_removeChild this child s =
     (if child \<in> set (children (heap s this)) then
        (let s1 = snd (Node_removeChild this child s);
             s2 = (if child \<in> set (focusableComponents (heap s this))
                   then sortFocusableComponents this
                          (upd this (\<lambda>n. n\<lparr>focusableComponents :=
                                            remove1 child (focusableComponents n)\<rparr>) s1)
                   else s1);
             s3 = (if focusedComponent (heap s this) = Some child
                   then setFocus this (firstOrNull (focusableComponents (heap s2 this))) s2
                   else s2)
         in (True, s3))
      else (False, s))"
  by (cases "child \<in> set (children (heap s this))")
     (simp_all add: Scene_removeChild_def Node_removeChild_def Let_def)

lemma removeChild_fst: "fst (removeChild p c s) = (c \<in> set (children (heap s p)))"
  by (simp add: removeChild_def Scene_removeChild_alt Let_def)

lemma removeChild_kind [simp]: "kind (heap (snd (removeChild p c s)) x) = kind (heap s x)"
  by (simp add: removeChild_def Scene_removeChild_alt Let_def)

lemma removeChild_tabIndex [simp]:
  "tabIndex (heap (snd (removeChild p c s)) x) = tabIndex (heap s x)"
  by (simp add: removeChild_def Scene_removeChild_alt Let_def)


lemma removeChild_parent:
  "parent (heap (snd (removeChild p c s)) x) =
     (if x = c \<and> c \<in> set (children (heap s p)) then None else parent (heap s x))"
  by (simp add: removeChild_def Scene_removeChild_alt Let_def Node_removeChild_parent)

lemma removeChild_registry:
  "focusableComponents (heap (snd (removeChild p c s)) x) =
     (if x = p \<and> kind (heap s p) = Scene \<and> c \<in> set (children (heap s p)) \<and>
         c \<in> set (focusableComponents (heap s p))
      then sortBy (heap s) (remove1 c (focusableComponents (heap s p)))
      else focusableComponents (heap s x))"
  by (simp add: removeChild_def Scene_removeChild_alt Let_def
        sortBy_cong [where h = "(heap (snd (Node_removeChild p c s)))
             (p := heap (snd (Node_removeChild p c s)) p
                \<lparr>focusableComponents := remove1 c (focusableComponents (heap s p))\<rparr>)"
           and h' = "heap s"])

lemma removeChild_focus:
  "focusedComponent (heap (snd (removeChild p c s)) x) =
     (if x = p \<and> kind (heap s p) = Scene \<and> c \<in> set (children (heap s p)) \<and>
         focusedComponent (heap s p) = Some c
      then firstOrNull (focusableComponents (heap (snd (removeChild p c s)) p))
      else focusedComponent (heap s x))"
  by (simp add: removeChild_def Scene_removeChild_alt Let_def)

lemma removeChild_registry_mem:
  "y \<noteq> c \<Longrightarrow>
   y \<in> set (focusableComponents (heap (snd (removeChild p c s)) x)) \<longleftrightarrow>
   y \<in> set (focusableComponents (heap s x))"
  by (simp add: removeChild_registry mem_remove1_other)

lemma removeChild_registry_subset:
  "set (focusableComponents (heap (snd (removeChild p c s)) x)) \<subseteq>
   set (focusableComponents (heap s x))"
  using set_remove1_subset [of c "focusableComponents (heap s p)"]
  by (auto simp: removeChild_registry)

lemma removeChild_focus_nonnull:
  assumes "focusedComponent (heap s x) \<noteq> None" and "a \<in> set (focusableComponents (heap s x))"
    and "a \<noteq> c"
  shows "focusedComponent (heap (snd (removeChild p c s)) x) \<noteq> None"
proof -
  have "a \<in> set (focusableComponents (heap (snd (removeChild p c s)) x))"
    using assms by (simp add: removeChild_registry_mem)
  then have "firstOrNull (focusableComponents (heap (snd (removeChild p c s)) x)) \<noteq> None"
    by (auto simp: firstOrNull_None_iff)
  then show ?thesis
    using assms(1) by (subst removeChild_focus) auto
qed

lemma Node_addChild_fields:
  "kind (heap (Node_addChild p c s) x) = kind (heap s x)"
  "tabIndex (heap (Node_addChild p c s) x) = tabIndex (heap s x)"
  "parent (heap (Node_addChild p c s) x) = (if x = c then Some p else parent (heap s x))"
  by (simp_all add: Node_addChild_def Let_def removeChild_parent split: option.splits)


lemma Node_addChild_registry:
  "focusableComponents (heap (Node_addChild p c s) x) =
     (case parent (heap s c) of
        Some q \<Rightarrow> focusableComponents (heap (snd (removeChild q c s)) x)
      | None \<Rightarrow> focusableComponents (heap s x))"
  by (simp add: Node_addChild_def Let_def split: option.splits)

lemma Node_addChild_focus:
  "focusedComponent (heap (Node_addChild p c s) x) =
     (case parent (heap s c) of
        Some q \<Rightarrow> focusedComponent (heap (snd (removeChild q c s)) x)
      | None \<Rightarrow> focusedComponent (heap s x))"
  by (simp add: Node_addChild_def Let_def split: option.splits)

lemma Node_addChild_calls:
  "calls (Node_addChild p c s) =
     (case parent (heap s c) of
        Some q \<Rightarrow> calls (snd (removeChild q c s))
      | None \<Rightarrow> calls s)"
  by (simp add: Node_addChild_def Let_def split: option.splits)

lemma Node_addChild_registry_mem:
  "y \<noteq> c \<Longrightarrow>
   y \<in> set (focusableComponents (heap (Node_addChild p c s) x)) \<longleftrightarrow>
   y \<in> set (focusableComponents (heap s x))"
  by (simp add: Node_addChild_registry removeChild_registry_mem split: option.splits)

lemma Node_addChild_registry_subset:
  "set (focusableComponents (heap (Node_addChild p c s) x)) \<subseteq>
   set (focusableComponents (heap s x))"
  using removeChild_registry_subset
  by (simp add: Node_addChild_registry split: option.splits)

lemma Node_addChild_focus_nonnull:
  assumes "focusedComponent (heap s x) \<noteq> None" and "a \<in> set (focusableComponents (heap s x))"
    and "a \<noteq> c"
  shows "focusedComponent (heap (Node_addChild p c s) x) \<noteq> None"
  using assms removeChild_focus_nonnull
  by (simp add: Node_addChild_focus split: option.splits)

lemma Node_addChild_focus_None:
  assumes "focusedComponent (heap s x) = None"
  shows "focusedComponent (heap (Node_addChild p c s) x) = None"
  using assms
  by (simp add: Node_addChild_focus removeChild_focus split: option.splits)

lemma addChild_kind [simp]: "kind (heap (addChild p c s) x) = kind (heap s x)"
  by (simp add: addChild_def Scene_addChild_def Let_def Node_addChild_fields)

lemma addChild_tabIndex [simp]: "tabIndex (heap (addChild p c s) x) = tabIndex (heap s x)"
  by (simp add: addChild_def Scene_addChild_def Let_def Node_addChild_fields)



lemma addChild_registry_mem:
  "y \<noteq> c \<Longrightarrow>
   y \<in> set (focusableComponents (heap (addChild p c s) x)) \<longleftrightarrow>
   y \<in> set (focusableComponents (heap s x))"
  by (simp add: addChild_def Scene_addChild_def Let_def Node_addChild_registry_mem)

lemma addChild_focus_nonnull:
  assumes "focusedComponent (heap s x) \<noteq> None" and "a \<in> set (focusableComponents (heap s x))"
    and "a \<noteq> c"
  shows "focusedComponent (heap (addChild p c s) x) \<noteq> None"
proof -
  have n: "focusedComponent (heap (Node_addChild p c s) x) \<noteq> None"
    using assms by (rule Node_addChild_focus_nonnull)
  have m: "focusableComponents (heap (Node_addChild p c s) p) @ [c] \<noteq> []" by simp
  show ?thesis
    using n by (auto simp: addChild_def Scene_addChild_def Let_def firstOrNull_None_iff)
qed

section \<open>Key decoder: prefix order of the table\<close>

text \<open>Characters that start no entry of the table are literal tokens, one each; every
  entry of the table but the last decodes to its own token.\<close>

lemma firstMatch_plain:
  "c \<notin> {ESC, CHR 0x0D, CHR 0x0A, CHR 0x09, CHR '' '', CHR 0x7F} \<Longrightarrow>
   firstMatch KEY_MAPPING (c # cs) = None"
  by (simp add: KEY_MAPPING_def startsWith_def)

lemma plain_characters_decode:
  "set s \<inter> {ESC, CHR 0x0D, CHR 0x0A, CHR 0x09, CHR '' '', CHR 0x7F} = {} \<Longrightarrow>
   handleInput s = map (\<lambda>c. [c]) s"
proof (induction s)
  case Nil
  then show ?case by (simp add: handleInput.simps)
next
  case (Cons c cs)
  then have "firstMatch KEY_MAPPING (c # cs) = None"
    by (intro firstMatch_plain) auto
  then have "handleInput (c # cs) = [c] # handleInput cs"
    by (subst handleInput.simps) simp
  then show ?case using Cons by simp
qed

lemma other_entries_decode:
  "list_all (\<lambda>(seq, tok). handleInput seq = [tok]) (butlast KEY_MAPPING)"
  by code_simp

text \<open>
  Claim C3: a chunk that is exactly one escape sequence of the mapping table decodes to
  the single token mapped to it, never to the token of a shorter mapped prefix followed
  by literal characters; a chunk of plain characters decodes to one literal token per
  character.

  The code does this for \<open>ESC [ A\<close> and for \<open>ab\<close>, and for every entry of the table
  but the last. It does not for \<open>ESC [ Z\<close>: the entry for \<open>ESC\<close> alone stands
  before the entry for \<open>ESC [ Z\<close>, which was appended last, so the loop matches
  \<open>ESC\<close> first and the rest is read as two literal characters.
\<close>

theorem handleInput_shift_tab_is_escape:
  "handleInput [ESC, CHR ''['', CHR ''Z''] = [''escape'', ''['', ''Z''] \<and>
   handleInput [ESC, CHR ''['', CHR ''A''] = [''up''] \<and>
   handleInput ''ab'' = [''a'', ''b'']"
  by code_simp

section \<open>Cursor positioning\<close>

text \<open>
  Claim C8, as amended: the cursor-move operation of the formatter emits
  \<open>ESC [ row ; col H\<close> for the row and column it is given, without translating them;
  the translation from 0-indexed cells to the 1-indexed wire is done by its callers. The
  draw routines of Text and Rectangle begin by moving the cursor to row \<open>y + 1\<close>,
  column \<open>x + 1\<close> for a node whose absolute position is \<open>(x, y)\<close>.
\<close>

theorem moveCursor_untranslated_callers_add_one:
  "moveCursor row col =
     [ESC] @ ''['' @ numberToString row @ '';'' @ numberToString col @ ''H'' \<and>
   (\<exists>rest. fst (render_Text n) =
      moveCursor (snd (absolutePosition n) + 1) (fst (absolutePosition n) + 1) # rest) \<and>
   (\<exists>rest. fst (render_Rectangle n) =
      moveCursor (snd (absolutePosition n) + 1) (fst (absolutePosition n) + 1) # rest)"
  by (auto simp: moveCursor_def render_Text_def render_Rectangle_def split: prod.splits)

text \<open>The claim as stated fails at row 0, column 0: the formatter emits
  \<open>ESC [ 0 ; 0 H\<close>, not \<open>ESC [ 1 ; 1 H\<close>.\<close>

theorem moveCursor_no_translation_counterexample:
  "moveCursor 0 0 = [ESC] @ ''[0;0H'' \<and>
   moveCursor 0 0 \<noteq>
     [ESC] @ ''['' @ numberToString (0 + 1) @ '';'' @ numberToString (0 + 1) @ ''H''"
  by (simp add: moveCursor_def numberToString_def digits.simps)

section \<open>Rendering and the visible flag\<close>

text \<open>No draw routine reads the flag, and neither does the traversal: a frame is the
  same whatever the flags are.\<close>

lemma render_ignores_visible: "render (n\<lparr>visible := v\<rparr>) = render n"
  by (simp add: render_def render_Rectangle_def render_Text_def split: kind.splits)

lemma renderNode_ignores_visible:
  "renderNode fuel r (\<lambda>x. (h x)\<lparr>visible := v x\<rparr>) = renderNode fuel r h \<and>
   renderChildren fuel rs (\<lambda>x. (h x)\<lparr>visible := v x\<rparr>) = renderChildren fuel rs h"
proof (induction fuel arbitrary: r rs)
  case 0
  have "renderChildren 0 rs (\<lambda>x. (h x)\<lparr>visible := v x\<rparr>) = renderChildren 0 rs h" for rs
    by (induction rs) simp_all
  then show ?case by simp
next
  case (Suc fuel)
  have n: "renderNode (Suc fuel) r (\<lambda>x. (h x)\<lparr>visible := v x\<rparr>) = renderNode (Suc fuel) r h"
    for r
    using Suc [of r "children (h r)"] by (simp add: render_ignores_visible)
  have "renderChildren (Suc fuel) rs (\<lambda>x. (h x)\<lparr>visible := v x\<rparr>) =
      renderChildren (Suc fuel) rs h" for rs
    by (induction rs)
       (simp_all add: n del: renderNode.simps split: option.splits prod.splits)
  then show ?case using n by blast
qed

text \<open>
  Claim C2: rendering a frame draws only visible nodes; a node whose visible flag is
  false is not drawn, nor are its descendants.

  The code never reads the flag: \<open>_renderNode\<close> calls \<open>render\<close> on every node. In
  the scene below the cursor of the text input (reference 6) is invisible, as its
  constructor leaves it, and the frame still ends with the four writes that draw it.
\<close>

theorem renderScene_draws_invisible_cursor:
  "map_option (\<lambda>(h, out, e). (out, e, visible (h 6)))
     (renderScene 4 0 (heap hiddenCursorScene)) =
   Some ([clearScreen,
          moveCursor 1 1, moveCursor 1 1, setBackgroundColor 0 0 0, ''    '', resetColors,
          moveCursor 2 4, moveCursor 2 4, setBackgroundColor 50 50 70, ''      '',
          resetColors,
          moveCursor 2 5, setForegroundColor 150 150 150, ''hi'', resetColors,
          moveCursor 2 5, setForegroundColor 255 255 255, ''|'', resetColors],
         None, False)"
  by code_simp

section \<open>The transform pass on a tree\<close>


lemma vadd_zero [simp]: "vadd (0, 0) a = a" "vadd a (0, 0) = a"
  by (simp_all add: vadd_def)






lemma pathsOf_last: "q \<in> set (pathsOf t) \<Longrightarrow> q \<noteq> [] \<and> last q \<in> set (nodesOf t)"
proof (induction t arbitrary: q)
  case (RNode r ts)
  show ?case
  proof (cases "q = [r]")
    case True
    then show ?thesis by simp
  next
    case False
    with RNode.prems obtain t q' where t: "t \<in> set ts" and q': "q' \<in> set (pathsOf t)"
      and q: "q = r # q'"
      by auto
    from RNode.IH [OF t q'] have "q' \<noteq> []" and "last q' \<in> set (nodesOf t)" by simp_all
    then show ?thesis using t q by auto
  qed
qed

lemma nodesOf_has_path: "x \<in> set (nodesOf t) \<Longrightarrow> \<exists>q \<in> set (pathsOf t). last q = x"
proof (induction t arbitrary: x)
  case (RNode r ts)
  show ?case
  proof (cases "x = r")
    case True
    then show ?thesis by auto
  next
    case False
    with RNode.prems obtain t where t: "t \<in> set ts" and x: "x \<in> set (nodesOf t)"
      by auto
    from RNode.IH [OF t x] obtain q where q: "q \<in> set (pathsOf t)" and l: "last q = x"
      by blast
    have "q \<noteq> []" using pathsOf_last [OF q] by simp
    then have "last (r # q) = x" using l by simp
    moreover have "r # q \<in> set (pathsOf (RNode r ts))" using t q by auto
    ultimately show ?thesis by blast
  qed
qed

lemma pathsOf_nodes: "last ` set (pathsOf t) = set (nodesOf t)"
  using pathsOf_last nodesOf_has_path by (fastforce simp: image_iff)





section \<open>Detaching a node that is not a child\<close>

text \<open>
  Claim C9: when \<open>child\<close> is not in the children list of \<open>parent\<close>,
  \<open>removeChild\<close> returns false and changes nothing: the whole state, and with it the
  children list of the parent and the parent reference of the child, is as before. This
  holds for Node.removeChild and for the override of Scene.
\<close>

theorem removeChild_absent_is_noop:
  "child \<notin> set (children (heap s this)) \<Longrightarrow> removeChild this child s = (False, s)"
  by (simp add: removeChild_def Scene_removeChild_def Node_removeChild_def)

theorem removeChild_absent_is_noop_witness:
  "3 \<notin> set (children (heap sceneABC 0)) \<and> removeChild 0 3 sceneABC = (False, sceneABC) \<and>
   8 \<notin> set (children (heap sceneABC 2)) \<and> removeChild 2 8 sceneABC = (False, sceneABC)"
proof -
  have a: "3 \<notin> set (children (heap sceneABC 0))" by code_simp
  have b: "8 \<notin> set (children (heap sceneABC 2))" by code_simp
  show ?thesis
    using a b removeChild_absent_is_noop [OF a] removeChild_absent_is_noop [OF b] by simp
qed

section \<open>At most one parent\<close>













section \<open>Registration of nested focusable components\<close>

text \<open>
  Claim C6: every Focusable node reachable inside a subtree attached to a Scene with
  \<open>addChild\<close>, not only the direct child, ends up in the focus registry of the Scene.

  \<open>Scene.addChild\<close> tests the direct child only; by \<open>addChild_registry_mem\<close> no
  other node ever enters a registry. After a group holding a button is attached to the
  scene, the button is a focusable grandchild of the scene and the registry is empty.
\<close>

theorem nested_button_not_registered:
  "kind (heap nestedButtonScene 0) = Scene \<and>
   parent (heap nestedButtonScene 2) = Some 0 \<and>
   parent (heap nestedButtonScene 3) = Some 2 \<and>
   isFocusable (heap nestedButtonScene 3) \<and>
   focusableComponents (heap nestedButtonScene 0) = [] \<and>
   focusedComponent (heap nestedButtonScene 0) = None"
  by code_simp

section \<open>The focus after removeChild\<close>





section \<open>Tab order and the tab key\<close>

text \<open>The list that the tab and arrow stages walk is empty, so neither stage ever moves
  the focus.\<close>

lemma navigation_stages_find_nothing:
  "tabStage this key s = None" "arrowStage this key s = None"
  by (simp_all add: tabStage_def arrowStage_def getTabbableChildren_def split: option.splits)

lemma handleKey_tab_unfocused:
  "focusedComponent (heap s this) = None \<Longrightarrow>
   ''tab'' \<notin> set (keyboardHandlers (heap s this)) \<Longrightarrow>
   Scene_handleKey componentHandleKey this ''tab'' s = (False, s)"
  by (simp add: Scene_handleKey_def tabStage_def getTabbableChildren_def)

text \<open>Key dispatch leaves the focus of every scene where it is, unless the key handler
  of the focused component moves it.\<close>

lemma handleKey_keeps_focus:
  assumes "\<And>f s'. focusedComponent (heap (snd (componentHandleKey f key s')) x) =
                   focusedComponent (heap s' x)"
  shows "focusedComponent (heap (snd (Scene_handleKey componentHandleKey t key s)) x) =
         focusedComponent (heap s x)"
proof -
  obtain handled s1 where c:
    "(case focusedComponent (heap s t) of
        Some f \<Rightarrow> if hasHandleKey (heap s f) then componentHandleKey f key s else (False, s)
      | None \<Rightarrow> (False, s)) = (handled, s1)"
    by (cases "case focusedComponent (heap s t) of
        Some f \<Rightarrow> if hasHandleKey (heap s f) then componentHandleKey f key s else (False, s)
      | None \<Rightarrow> (False, s)") auto
  have s1: "focusedComponent (heap s1 x) = focusedComponent (heap s x)"
    using c assms [of _ s]
    by (auto split: option.splits if_splits) (metis snd_conv)+
  show ?thesis
    using s1 by (simp add: Scene_handleKey_def c navigation_stages_find_nothing)
qed

text \<open>
  Claim C4: with A (no tab index), B (tab index 1) and C (tab index 0) registered in
  that order, the registry sorts to C, B, A, and the tab key with nothing focused
  focuses C, then B, then A, then C again.

  The registry is sorted as claimed (C is 8, B is 5, A is 2). The tab key does not move
  the focus: \<open>handleKey\<close> walks the list returned by \<open>getTabbableChildren\<close>, which is
  empty, so with nothing focused the key is reported unhandled and the state is
  unchanged.
\<close>

theorem tab_key_does_not_focus:
  "focusableComponents (heap sceneABC 0) = [8, 5, 2] \<and>
   focusedComponent (heap (setFocus 0 None sceneABC) 0) = None \<and>
   Scene_handleKey componentHandleKey 0 ''tab'' (setFocus 0 None sceneABC) =
     (False, setFocus 0 None sceneABC)"
proof -
  have a: "focusableComponents (heap sceneABC 0) = [8, 5, 2]" by code_simp
  have b: "focusedComponent (heap (setFocus 0 None sceneABC) 0) = None" by code_simp
  have c: "''tab'' \<notin> set (keyboardHandlers (heap (setFocus 0 None sceneABC) 0))"
    by code_simp
  show ?thesis
    using a b handleKey_tab_unfocused [OF b c] by simp
qed

section \<open>The first focusable child takes the focus\<close>

lemma anchored_step:
  assumes "anchored t c s" and "leavesInPlace t c op"
  shows "anchored t c (step op s)"
proof (cases op)
  case (AddChild p d)
  then show ?thesis
    using assms addChild_focus_nonnull [of s t c d p]
    by (simp add: anchored_def addChild_registry_mem)
next
  case (RemoveChild p d)
  then show ?thesis
    using assms removeChild_focus_nonnull [of s t c d p]
    by (simp add: anchored_def removeChild_registry_mem)
next
  case (SetFocus t' x)
  then show ?thesis
    using assms by (auto simp: anchored_def)
qed

lemma anchored_run:
  "anchored t c s \<Longrightarrow> list_all (leavesInPlace t c) ops \<Longrightarrow> anchored t c (run ops s)"
  by (induction ops arbitrary: s) (simp_all add: anchored_step)

lemma addChild_focuses_first:
  assumes S: "kind (heap s t) = Scene" and F: "isFocusable (heap s c)"
    and N: "focusedComponent (heap s t) = None"
    and R: "\<forall>r \<in> set (focusableComponents (heap s t)). isFocusable (heap s r)"
  shows "\<exists>first rest.
      focusableComponents (heap (addChild t c s) t) = first # rest \<and>
      c \<in> set (first # rest) \<and>
      focusedComponent (heap (addChild t c s) t) = Some first \<and>
      isFocused (heap (addChild t c s) first) \<and>
      calls (addChild t c s) = calls (Node_addChild t c s) @ [OnFocus first]"
proof -
  let ?s1 = "Node_addChild t c s"
  let ?s2 = "sortFocusableComponents t
               (upd t (\<lambda>n. n\<lparr>focusableComponents := focusableComponents n @ [c]\<rparr>) ?s1)"
  let ?reg = "focusableComponents (heap ?s2 t)"
  have f1: "focusedComponent (heap ?s1 t) = None"
    using N by (rule Node_addChild_focus_None)
  have F1: "isFocusable (heap ?s1 c)"
    using F by (simp add: isFocusable_def Node_addChild_fields)
  have f2: "focusedComponent (heap ?s2 t) = None"
    using f1 by simp
  have set_reg: "set ?reg = insert c (set (focusableComponents (heap ?s1 t)))"
    by simp
  then have "?reg \<noteq> []" by auto
  then obtain first rest where reg: "?reg = first # rest"
    by (cases ?reg) auto
  have "first \<in> insert c (set (focusableComponents (heap s t)))"
    using reg set_reg Node_addChild_registry_subset [of t c s t] by auto
  then have "isFocusable (heap s first)" using F R by auto
  then have cb: "hasFocusCallbacks (heap ?s2 first)"
    by (auto simp: isFocusable_def hasFocusCallbacks_def Node_addChild_fields)
  have eq: "addChild t c s = setFocus t (Some first) ?s2"
    using S F1 f2 reg by (simp add: addChild_def Scene_addChild_def Let_def)
  have eq2: "addChild t c s =
      onFocus first (upd t (\<lambda>n. n\<lparr>focusedComponent := Some first\<rparr>) ?s2)"
    unfolding eq using f2 cb by (rule setFocus_from_None)
  have 1: "focusableComponents (heap (addChild t c s) t) = first # rest"
    unfolding eq using reg by simp
  have 2: "c \<in> set (first # rest)"
    using reg set_reg by auto
  have 3: "focusedComponent (heap (addChild t c s) t) = Some first"
    unfolding eq by simp
  have 4: "isFocused (heap (addChild t c s) first)"
    unfolding eq2 by (rule onFocus_effect)
  have 5: "calls (addChild t c s) = calls ?s1 @ [OnFocus first]"
    unfolding eq2 by (simp add: onFocus_effect)
  show ?thesis using 1 2 3 4 5 by blast
qed

text \<open>
  Claim C10: when \<open>addChild\<close> adds a focusable component to a Scene whose focused
  component is null, the Scene at once sets the focus to the first component of its
  sorted registry and invokes the focus callback of that component; from then on the
  focused component of the Scene is not null until that component is removed or
  \<open>setFocus(null)\<close> is called.

  The entries of the registry are focusable, as every entry is when it is pushed. After
  the call the registry is not empty and holds the child, the focus is on its first
  entry, that entry has \<open>isFocused\<close> set and its \<open>onFocus\<close> is the last call made.
  After any further sequence of operations that neither detaches the child nor calls
  \<open>setFocus(null)\<close> on the scene, the focused component is not null. Key dispatch
  in between does not clear the focus either (\<open>handleKey_keeps_focus\<close>).
\<close>

theorem addChild_focuses_first_and_focus_stays:
  assumes "kind (heap s t) = Scene" and "isFocusable (heap s c)"
    and "focusedComponent (heap s t) = None"
    and "list_all (\<lambda>r. isFocusable (heap s r)) (focusableComponents (heap s t))"
    and "list_all (leavesInPlace t c) ops"
  shows "\<exists>first rest.
      focusableComponents (heap (addChild t c s) t) = first # rest \<and>
      c \<in> set (first # rest) \<and>
      focusedComponent (heap (addChild t c s) t) = Some first \<and>
      isFocused (heap (addChild t c s) first) \<and>
      calls (addChild t c s) = calls (Node_addChild t c s) @ [OnFocus first] \<and>
      focusedComponent (heap (run ops (addChild t c s)) t) \<noteq> None"
proof -
  have r: "\<forall>r \<in> set (focusableComponents (heap s t)). isFocusable (heap s r)"
    using assms(4) by (simp add: list_all_iff)
  from addChild_focuses_first [OF assms(1-3) r]
  obtain first rest where
    a: "focusableComponents (heap (addChild t c s) t) = first # rest"
      "c \<in> set (first # rest)"
      "focusedComponent (heap (addChild t c s) t) = Some first"
      "isFocused (heap (addChild t c s) first)"
      "calls (addChild t c s) = calls (Node_addChild t c s) @ [OnFocus first]"
    by blast
  have "anchored t c (addChild t c s)"
    using a(1-3) by (simp add: anchored_def)
  then have "anchored t c (run ops (addChild t c s))"
    using assms(5) by (rule anchored_run)
  then have "focusedComponent (heap (run ops (addChild t c s)) t) \<noteq> None"
    by (simp add: anchored_def)
  then show ?thesis using a by blast
qed

theorem addChild_focuses_first_and_focus_stays_witness:
  "kind (heap sceneAB_unfocused 0) = Scene \<and>
   isFocusable (heap sceneAB_unfocused 8) \<and>
   focusedComponent (heap sceneAB_unfocused 0) = None \<and>
   focusableComponents (heap sceneAB_unfocused 0) = [5, 2] \<and>
   isFocusable (heap sceneAB_unfocused 5) \<and> isFocusable (heap sceneAB_unfocused 2) \<and>
   focusableComponents (heap (addChild 0 8 sceneAB_unfocused) 0) = [8, 5, 2] \<and>
   focusedComponent (heap (addChild 0 8 sceneAB_unfocused) 0) = Some 8 \<and>
   isFocused (heap (addChild 0 8 sceneAB_unfocused) 8) \<and>
   focusedComponent
     (heap (run [SetFocus 0 (Some 5), RemoveChild 0 5, AddChild 0 5, RemoveChild 0 2]
              (addChild 0 8 sceneAB_unfocused)) 0) \<noteq> None"
proof -
  have k: "kind (heap sceneAB_unfocused 0) = Scene" by code_simp
  have f: "isFocusable (heap sceneAB_unfocused 8)" by code_simp
  have n: "focusedComponent (heap sceneAB_unfocused 0) = None" by code_simp
  have g: "focusableComponents (heap sceneAB_unfocused 0) = [5, 2]" by code_simp
  have f5: "isFocusable (heap sceneAB_unfocused 5)" by code_simp
  have f2: "isFocusable (heap sceneAB_unfocused 2)" by code_simp
  have r: "list_all (\<lambda>r. isFocusable (heap sceneAB_unfocused r))
             (focusableComponents (heap sceneAB_unfocused 0))"
    using g f5 f2 by simp
  have o: "list_all (leavesInPlace 0 8)
             [SetFocus 0 (Some 5), RemoveChild 0 5, AddChild 0 5, RemoveChild 0 2]"
    by simp
  have e: "focusableComponents (heap (addChild 0 8 sceneAB_unfocused) 0) = [8, 5, 2]"
    by code_simp
  from addChild_focuses_first_and_focus_stays [OF k f n r o] e
  have "focusedComponent (heap (addChild 0 8 sceneAB_unfocused) 0) = Some 8 \<and>
      isFocused (heap (addChild 0 8 sceneAB_unfocused) 8) \<and>
      focusedComponent
        (heap (run [SetFocus 0 (Some 5), RemoveChild 0 5, AddChild 0 5, RemoveChild 0 2]
                 (addChild 0 8 sceneAB_unfocused)) 0) \<noteq> None"
    by auto
  then show ?thesis using k f n g f5 f2 e by simp
qed

end
